theory Spec2Isabelle
  imports
    Complex_Main
    "HOL-Library.Char_ord"
    "HOL-Library.List_Lexorder"
    "HOL-Library.Product_Lexorder"
begin

section \<open>Data model\<close>

text \<open>
  The program (\<^verbatim>\<open>app.py\<close>) works on one pandas data frame \<^verbatim>\<open>df\<close>. A frame is
  modelled as the list of its rows, in index order. The columns are the canonical ones
  produced by the renaming and cleaning steps (lines 51-68) plus the column
  \<^verbatim>\<open>flagged\<close> that line 100 adds.

  \<^item> \<^verbatim>\<open>amount\<close> is a float column without NaN (line 62 drops the rows whose amount is
    missing). Amounts are modelled as real numbers: the arithmetic of the model is exact,
    the rounding of binary floating point is not represented.
  \<^item> \<^verbatim>\<open>date\<close> is a \<^verbatim>\<open>datetime64[ns]\<close> column: a count of nanoseconds since
    1970-01-01 00:00, or \<^verbatim>\<open>NaT\<close>, which is \<open>None\<close> here.
  \<^item> A float value that may be NaN is a \<open>real option\<close>, with \<open>None\<close> for NaN.
\<close>

type_synonym timestamp = int

record txn =
  amount :: real
  account_id :: string
  txn_type :: string
  merchant :: string
  date :: "timestamp option"
  flagged :: bool

text \<open>
  The sidebar inputs (lines 75-79). \<^verbatim>\<open>date_input\<close> gives a calendar date or
  \<^verbatim>\<open>None\<close>; a date is modelled as its number of days since 1970-01-01. Both
  \<^verbatim>\<open>number_input\<close> widgets are called with integer arguments and give an integer.
\<close>

record config =
  start_date :: "int option"
  end_date :: "int option"
  user_threshold :: int
  rapid_txn_threshold :: int
  risky_merchants :: "string list"

datatype error = ZeroDivisionError

datatype efloat = Fin real | PosInf

section \<open>Library operations\<close>

text \<open>\<^verbatim>\<open>pd.to_datetime\<close> of a calendar date: midnight at the start of that day.\<close>

definition to_datetime :: "int \<Rightarrow> timestamp" where
  "to_datetime d = d * 86400000000000"

text \<open>Comparisons of a \<^verbatim>\<open>datetime64\<close> value with a timestamp: false on \<^verbatim>\<open>NaT\<close>.\<close>

definition ge_ts :: "timestamp option \<Rightarrow> timestamp \<Rightarrow> bool" where
  "ge_ts d t = (case d of None \<Rightarrow> False | Some x \<Rightarrow> x \<ge> t)"

definition le_ts :: "timestamp option \<Rightarrow> timestamp \<Rightarrow> bool" where
  "le_ts d t = (case d of None \<Rightarrow> False | Some x \<Rightarrow> x \<le> t)"

text \<open>\<^verbatim>\<open>df['date'].isna().all()\<close>; true on the empty frame.\<close>

definition isna_all :: "txn list \<Rightarrow> bool" where
  "isna_all df = list_all (\<lambda>r. date r = None) df"

text \<open>\<^verbatim>\<open>df.loc[mask, 'flagged'] = True\<close>, the mask being a boolean column of \<^verbatim>\<open>df\<close>.\<close>

definition loc_set_flagged :: "bool list \<Rightarrow> txn list \<Rightarrow> txn list" where
  "loc_set_flagged msk df = map2 (\<lambda>m r. if m then r\<lparr>flagged := True\<rparr> else r) msk df"

text \<open>\<^verbatim>\<open>Series.fillna\<close>.\<close>

definition fillna :: "'a \<Rightarrow> 'a option \<Rightarrow> 'a" where
  "fillna v x = (case x of None \<Rightarrow> v | Some y \<Rightarrow> y)"

text \<open>\<^verbatim>\<open>Series.mean\<close>, \<^verbatim>\<open>Series.max\<close>, \<^verbatim>\<open>Series.min\<close>: NaN on an empty column.\<close>

definition mean :: "real list \<Rightarrow> real option" where
  "mean xs = (if xs = [] then None else Some (sum_list xs / real (length xs)))"

definition series_max :: "real list \<Rightarrow> real option" where
  "series_max xs = (case xs of [] \<Rightarrow> None | x # ys \<Rightarrow> Some (fold max ys x))"

definition series_min :: "real list \<Rightarrow> real option" where
  "series_min xs = (case xs of [] \<Rightarrow> None | x # ys \<Rightarrow> Some (fold min ys x))"

text \<open>
  \<^verbatim>\<open>Series.std\<close>: the sample standard deviation (one degree of freedom removed), NaN
  when the column has fewer than two values.
\<close>

definition std :: "real list \<Rightarrow> real option" where
  "std xs =
     (if length xs < 2 then None
      else let m = sum_list xs / real (length xs)
           in Some (sqrt (sum_list (map (\<lambda>x. (x - m)\<^sup>2) xs) / real (length xs - 1))))"

section \<open>Date filter (lines 82-84)\<close>

definition date_filter :: "int option \<Rightarrow> int option \<Rightarrow> txn list \<Rightarrow> txn list" where
  "date_filter sd ed df =
     (case sd of
        None \<Rightarrow> df
      | Some s \<Rightarrow>
          (case ed of
             None \<Rightarrow> df
           | Some e \<Rightarrow>
               if \<not> isna_all df
               then filter (\<lambda>r. ge_ts (date r) (to_datetime s) \<and> le_ts (date r) (to_datetime e)) df
               else df))"

section \<open>Fraud detection (lines 100-126)\<close>

subsection \<open>High-value transactions (lines 103-104)\<close>

definition high_value_mask :: "int \<Rightarrow> txn list \<Rightarrow> bool list" where
  "high_value_mask thr df = map (\<lambda>r. amount r > real_of_int thr) df"

definition high_value :: "int \<Rightarrow> txn list \<Rightarrow> txn list" where
  "high_value thr df = (if thr > 0 then loc_set_flagged (high_value_mask thr df) df else df)"

subsection \<open>Rapid repeated transactions (lines 107-112)\<close>

text \<open>
  \<^verbatim>\<open>df.sort_values(['account_id','date'])\<close>: a stable sort by account, then by date with
  \<^verbatim>\<open>NaT\<close> after every timestamp.
\<close>

definition date_key :: "timestamp option \<Rightarrow> nat \<times> int" where
  "date_key d = (case d of None \<Rightarrow> (1, 0) | Some t \<Rightarrow> (0, t))"

definition sort_values :: "txn list \<Rightarrow> txn list" where
  "sort_values df = sort_key (\<lambda>r. (account_id r, date_key (date r))) df"

text \<open>
  \<^verbatim>\<open>Series.diff\<close> inside one group: \<^verbatim>\<open>NaT\<close> for the first row, then each row minus its
  predecessor, \<^verbatim>\<open>NaT\<close> where either is \<^verbatim>\<open>NaT\<close>.
\<close>

definition sub_ts :: "timestamp option \<Rightarrow> timestamp option \<Rightarrow> int option" where
  "sub_ts x p = (case x of None \<Rightarrow> None | Some a \<Rightarrow> (case p of None \<Rightarrow> None | Some b \<Rightarrow> Some (a - b)))"

fun diff_from :: "timestamp option \<Rightarrow> timestamp option list \<Rightarrow> int option list" where
  "diff_from p [] = []"
| "diff_from p (x # xs) = sub_ts x p # diff_from x xs"

fun diff :: "timestamp option list \<Rightarrow> int option list" where
  "diff [] = []"
| "diff (x # xs) = None # diff_from x xs"

text \<open>\<^verbatim>\<open>.dt.total_seconds()\<close> of a nanosecond difference; NaN on \<^verbatim>\<open>NaT\<close>.\<close>

definition total_seconds :: "int option \<Rightarrow> real option" where
  "total_seconds d = map_option (\<lambda>n. real_of_int n / 1000000000) d"

text \<open>\<^verbatim>\<open>.fillna(np.inf)\<close> and the comparison \<^verbatim>\<open>time_diff < 3600\<close>.\<close>

definition fillna_inf :: "real option \<Rightarrow> efloat" where
  "fillna_inf x = (case x of None \<Rightarrow> PosInf | Some y \<Rightarrow> Fin y)"

fun lt_efloat :: "efloat \<Rightarrow> real \<Rightarrow> bool" where
  "lt_efloat (Fin x) y = (x < y)"
| "lt_efloat PosInf y = False"

text \<open>The rows of one \<^verbatim>\<open>groupby('account_id')\<close> group, in the order of the frame.\<close>

definition group_rows :: "txn list \<Rightarrow> string \<Rightarrow> txn list" where
  "group_rows df a = filter (\<lambda>r. account_id r = a) df"

definition time_diff :: "txn list \<Rightarrow> string \<Rightarrow> efloat list" where
  "time_diff df_sorted a =
     map (\<lambda>d. fillna_inf (total_seconds d)) (diff (map date (group_rows df_sorted a)))"

definition rapid_flag :: "txn list \<Rightarrow> string \<Rightarrow> bool list" where
  "rapid_flag df_sorted a = map (\<lambda>d. lt_efloat d 3600) (time_diff df_sorted a)"

text \<open>\<^verbatim>\<open>groupby('account_id')['rapid_flag'].sum()\<close> for one group.\<close>

definition rapid_flag_sum :: "txn list \<Rightarrow> string \<Rightarrow> nat" where
  "rapid_flag_sum df_sorted a = length (filter (\<lambda>b. b) (rapid_flag df_sorted a))"

definition rapid_ids :: "int \<Rightarrow> txn list \<Rightarrow> string list" where
  "rapid_ids thr df =
     (let df_sorted = sort_values df
      in filter (\<lambda>a. int (rapid_flag_sum df_sorted a) \<ge> thr) (remdups (map account_id df_sorted)))"

definition rapid_mask :: "int \<Rightarrow> txn list \<Rightarrow> bool list" where
  "rapid_mask thr df = map (\<lambda>r. account_id r \<in> set (rapid_ids thr df)) df"

definition rapid :: "int \<Rightarrow> txn list \<Rightarrow> txn list" where
  "rapid thr df =
     (if thr > 0 \<and> \<not> isna_all df then loc_set_flagged (rapid_mask thr df) df else df)"

subsection \<open>Unusually large relative to the account mean (lines 115-117)\<close>

text \<open>\<^verbatim>\<open>groupby('account_id')['amount'].transform(f)\<close>: per row, \<open>f\<close> of its group.\<close>

definition group_amounts :: "txn list \<Rightarrow> string \<Rightarrow> real list" where
  "group_amounts df a = map amount (group_rows df a)"

definition acct_mean :: "txn list \<Rightarrow> txn \<Rightarrow> real option" where
  "acct_mean df r = mean (group_amounts df (account_id r))"

definition acct_std :: "txn list \<Rightarrow> txn \<Rightarrow> real" where
  "acct_std df r = fillna 0 (std (group_amounts df (account_id r)))"

definition outlier_mask :: "txn list \<Rightarrow> bool list" where
  "outlier_mask df =
     map (\<lambda>r. case acct_mean df r of
                None \<Rightarrow> False
              | Some m \<Rightarrow> amount r > m + 2 * acct_std df r) df"

definition outlier :: "txn list \<Rightarrow> txn list" where
  "outlier df = loc_set_flagged (outlier_mask df) df"

subsection \<open>Weekend transactions (lines 120-122)\<close>

text \<open>
  \<^verbatim>\<open>.dt.weekday\<close>, Monday being 0: 1970-01-01 was a Thursday (3). NaN on \<^verbatim>\<open>NaT\<close>, and
  then \<^verbatim>\<open>>= 5\<close> is false.
\<close>

definition weekday :: "timestamp \<Rightarrow> int" where
  "weekday t = (t div 86400000000000 + 3) mod 7"

definition weekend_mask :: "txn list \<Rightarrow> bool list" where
  "weekend_mask df = map (\<lambda>r. case date r of None \<Rightarrow> False | Some t \<Rightarrow> weekday t \<ge> 5) df"

definition weekend :: "txn list \<Rightarrow> txn list" where
  "weekend df = (if \<not> isna_all df then loc_set_flagged (weekend_mask df) df else df)"

subsection \<open>Risky merchants (lines 125-126)\<close>

definition risky_mask :: "string list \<Rightarrow> txn list \<Rightarrow> bool list" where
  "risky_mask ms df = map (\<lambda>r. merchant r \<in> set ms) df"

definition risky :: "string list \<Rightarrow> txn list \<Rightarrow> txn list" where
  "risky ms df = (if ms \<noteq> [] then loc_set_flagged (risky_mask ms df) df else df)"

subsection \<open>The whole block\<close>

definition unflag :: "txn \<Rightarrow> txn" where
  "unflag r = r\<lparr>flagged := False\<rparr>"

definition fraud_detection :: "config \<Rightarrow> txn list \<Rightarrow> txn list" where
  "fraud_detection cfg df =
     risky (risky_merchants cfg)
       (weekend
         (outlier
           (rapid (rapid_txn_threshold cfg)
             (high_value (user_threshold cfg)
               (map unflag df)))))"

section \<open>The analysis as a whole (lines 82-129)\<close>

record report =
  total_txn :: nat
  avg_amount :: "real option"
  max_amount :: "real option"
  min_amount :: "real option"
  flagged_df :: "txn list"
  flagged_pct :: real

text \<open>
  The division of line 129 is a division of Python integers: it raises
  \<^verbatim>\<open>ZeroDivisionError\<close> when \<^verbatim>\<open>total_txn\<close> is 0. The formatting of lines 94-96 does
  not raise on NaN.
\<close>

definition analysis :: "config \<Rightarrow> txn list \<Rightarrow> error + report" where
  "analysis cfg df0 =
     (let df = date_filter (start_date cfg) (end_date cfg) df0;
          total = length df;
          avg = mean (map amount df);
          mx = series_max (map amount df);
          mn = series_min (map amount df);
          fl = filter flagged (fraud_detection cfg df)
      in if total = 0 then Inl ZeroDivisionError
         else Inr \<lparr>total_txn = total, avg_amount = avg, max_amount = mx, min_amount = mn,
                   flagged_df = fl,
                   flagged_pct = real (length fl) / real total * 100\<rparr>)"

section \<open>The rapid-succession rule as the specification words it\<close>

text \<open>
  The definitions of this section do not come from the code. They state the rule of the
  specification, to be compared with lines 107-112: per account, the timestamps in
  ascending order, the difference in seconds between each one and its predecessor (the
  first has none, so its difference is infinite and never counts), and the number of
  differences strictly below 3600 seconds.
\<close>

text \<open>The values that are present in a column, in order.\<close>

definition somes :: "'a option list \<Rightarrow> 'a list" where
  "somes ds = concat (map (\<lambda>d. case d of None \<Rightarrow> [] | Some t \<Rightarrow> [t]) ds)"

text \<open>The differences, in seconds, between neighbours of a list of timestamps.\<close>

fun gaps :: "timestamp list \<Rightarrow> real list" where
  "gaps (p # q # ts) = (real_of_int (q - p) / 1000000000) # gaps (q # ts)"
| "gaps ts = []"

definition account_timestamps :: "txn list \<Rightarrow> string \<Rightarrow> timestamp list" where
  "account_timestamps df a = somes (map date (group_rows df a))"

definition spec_rapid_count :: "txn list \<Rightarrow> string \<Rightarrow> nat" where
  "spec_rapid_count df a =
     length (filter (\<lambda>d. d < 3600) (gaps (sort (account_timestamps df a))))"

section \<open>Auxiliary notions for the proofs\<close>

text \<open>The number of missing values of a column.\<close>

definition nones :: "'a option list \<Rightarrow> nat" where
  "nones ds = length (filter (\<lambda>d. d = None) ds)"

text \<open>Lines 109-110 on one difference: seconds, NaN filled with infinity, below 3600.\<close>

definition is_rapid :: "int option \<Rightarrow> bool" where
  "is_rapid d = lt_efloat (fillna_inf (total_seconds d)) 3600"

section \<open>Example frames\<close>

text \<open>
  Four rows: one at 2024-01-01 00:00, one at 2024-01-02 00:00, one a nanosecond later,
  one without a timestamp.
\<close>

definition ex_dates :: "txn list" where
  "ex_dates =
     [\<lparr>amount = 10, account_id = ''A'', txn_type = ''debit'', merchant = ''m'',
        date = Some 1704067200000000000, flagged = False\<rparr>,
      \<lparr>amount = 20, account_id = ''A'', txn_type = ''debit'', merchant = ''m'',
        date = Some 1704153600000000000, flagged = False\<rparr>,
      \<lparr>amount = 30, account_id = ''B'', txn_type = ''debit'', merchant = ''m'',
        date = Some 1704153600000000001, flagged = False\<rparr>,
      \<lparr>amount = 40, account_id = ''B'', txn_type = ''debit'', merchant = ''m'',
        date = None, flagged = False\<rparr>]"

text \<open>
  Twelve rows without timestamps: account A with eight amounts 0 and one amount 9 (mean 1,
  standard deviation 3), account B with a single row, account C with two equal amounts.
\<close>

definition ex_outlier :: "txn list" where
  "ex_outlier =
     replicate 8 \<lparr>amount = 0, account_id = ''A'', txn_type = ''debit'', merchant = ''m'',
                   date = None, flagged = False\<rparr>
     @ [\<lparr>amount = 9, account_id = ''A'', txn_type = ''debit'', merchant = ''m'',
          date = None, flagged = False\<rparr>,
        \<lparr>amount = 5000, account_id = ''B'', txn_type = ''debit'', merchant = ''m'',
          date = None, flagged = False\<rparr>,
        \<lparr>amount = 7, account_id = ''C'', txn_type = ''debit'', merchant = ''m'',
          date = None, flagged = False\<rparr>,
        \<lparr>amount = 7, account_id = ''C'', txn_type = ''credit'', merchant = ''m'',
          date = None, flagged = False\<rparr>]"

text \<open>
  Five rows: Saturday 2024-01-06 12:00, Sunday 2024-01-07 00:00, Monday 2024-01-01 00:00,
  no timestamp, and the last nanosecond of Friday 2024-01-05.
\<close>

definition ex_week :: "txn list" where
  "ex_week =
     [\<lparr>amount = 20, account_id = ''A'', txn_type = ''debit'', merchant = ''casino'',
        date = Some 1704542400000000000, flagged = False\<rparr>,
      \<lparr>amount = 30, account_id = ''A'', txn_type = ''debit'', merchant = ''grocer'',
        date = Some 1704585600000000000, flagged = False\<rparr>,
      \<lparr>amount = 100, account_id = ''B'', txn_type = ''debit'', merchant = ''casino'',
        date = Some 1704067200000000000, flagged = False\<rparr>,
      \<lparr>amount = 40, account_id = ''B'', txn_type = ''debit'', merchant = ''grocer'',
        date = None, flagged = False\<rparr>,
      \<lparr>amount = 50, account_id = ''C'', txn_type = ''debit'', merchant = ''grocer'',
        date = Some 1704499199999999999, flagged = False\<rparr>]"


text \<open>
  Five rows: account A at 10:00, without a timestamp, and at 10:00 again; account B at
  10:00 and at 12:00.
\<close>

definition ex_ties :: "txn list" where
  "ex_ties =
     [\<lparr>amount = 10, account_id = ''A'', txn_type = ''debit'', merchant = ''m'',
        date = Some 1704103200000000000, flagged = False\<rparr>,
      \<lparr>amount = 20, account_id = ''A'', txn_type = ''debit'', merchant = ''m'',
        date = None, flagged = False\<rparr>,
      \<lparr>amount = 30, account_id = ''A'', txn_type = ''debit'', merchant = ''m'',
        date = Some 1704103200000000000, flagged = False\<rparr>,
      \<lparr>amount = 40, account_id = ''B'', txn_type = ''debit'', merchant = ''m'',
        date = Some 1704103200000000000, flagged = False\<rparr>,
      \<lparr>amount = 50, account_id = ''B'', txn_type = ''debit'', merchant = ''m'',
        date = Some 1704110400000000000, flagged = False\<rparr>]"

section \<open>Sorting and grouping\<close>

lemma insort_key_map:
  "insort_key f (g x) (map g ys) = map g (insort_key (\<lambda>y. f (g y)) x ys)"
  by (induction ys) simp_all

lemma sort_key_map:
  "sort_key f (map g xs) = map g (sort_key (\<lambda>x. f (g x)) xs)"
  by (induction xs) (simp_all add: insort_key_map)

lemma insort_key_cong_keys:
  "\<forall>y\<in>set ys. (f x \<le> f y) = (g x \<le> g y) \<Longrightarrow> insort_key f x ys = insort_key g x ys"
  by (induction ys) simp_all

lemma sort_key_cong_keys:
  "\<forall>x\<in>set xs. \<forall>y\<in>set xs. (f x \<le> f y) = (g x \<le> g y) \<Longrightarrow> sort_key f xs = sort_key g xs"
proof (induction xs)
  case Nil
  then show ?case by simp
next
  case (Cons x xs)
  have "sort_key f xs = sort_key g xs" using Cons by simp
  moreover have "insort_key f x (sort_key g xs) = insort_key g x (sort_key g xs)"
    by (rule insort_key_cong_keys) (use Cons.prems in simp)
  ultimately show ?case by simp
qed

lemma group_rows_sort_values:
  "group_rows (sort_values df) a = sort_key (\<lambda>r. date_key (date r)) (group_rows df a)"
proof -
  have "group_rows (sort_values df) a
        = sort_key (\<lambda>r. (account_id r, date_key (date r))) (group_rows df a)"
    by (simp add: group_rows_def sort_values_def filter_sort)
  also have "\<dots> = sort_key (\<lambda>r. date_key (date r)) (group_rows df a)"
    by (rule sort_key_cong_keys) (simp add: group_rows_def less_eq_prod_def)
  finally show ?thesis .
qed

lemma dates_group_sorted:
  "map date (group_rows (sort_values df) a) = sort_key date_key (map date (group_rows df a))"
  by (simp add: group_rows_sort_values sort_key_map)

lemma date_key_le_Some: "(date_key (Some s) \<le> date_key (Some t)) = (s \<le> t)"
  by (simp add: date_key_def less_eq_prod_def)

lemma date_key_Some_le_None: "date_key (Some s) \<le> date_key None"
  by (simp add: date_key_def less_eq_prod_def)

lemma date_key_None_le_Some: "\<not> date_key None \<le> date_key (Some t)"
  by (simp add: date_key_def less_eq_prod_def)

lemma insort_date_key_Some_nones:
  "insort_key date_key (Some t) (replicate n None) = Some t # replicate n None"
  by (cases n) (simp_all add: date_key_Some_le_None)

lemma insort_date_key_Some:
  "insort_key date_key (Some t) (map Some ts @ replicate n None)
     = map Some (insort t ts) @ replicate n None"
  by (induction ts) (simp_all add: insort_date_key_Some_nones date_key_le_Some)

lemma insort_date_key_None_nones:
  "insort_key date_key None (replicate n None) = replicate (Suc n) None"
  by (cases n) simp_all

lemma insort_date_key_None:
  "insort_key date_key None (map Some ts @ replicate n None)
     = map Some ts @ replicate (Suc n) None"
  by (induction ts) (simp_all add: insort_date_key_None_nones date_key_None_le_Some del: replicate.simps)

lemma sort_key_date_key:
  "sort_key date_key ds = map Some (sort (somes ds)) @ replicate (nones ds) None"
proof (induction ds)
  case Nil
  then show ?case by (simp add: somes_def nones_def)
next
  case (Cons d ds)
  show ?case
  proof (cases d)
    case None
    then show ?thesis using Cons 
      by (simp add: insort_date_key_None somes_def nones_def del: replicate.simps)
  next
    case (Some t)
    then show ?thesis using Cons by (simp add: insort_date_key_Some somes_def nones_def)
  qed
qed

lemma is_rapid_simps:
  "is_rapid None = False"
  "is_rapid (Some n) = (real_of_int n / 1000000000 < 3600)"
  by (simp_all add: is_rapid_def fillna_inf_def total_seconds_def)

lemma rapid_flag_sum_alt:
  "rapid_flag_sum df_sorted a
     = length (filter is_rapid (diff (map date (group_rows df_sorted a))))"
  by (simp add: rapid_flag_sum_def rapid_flag_def time_diff_def filter_map comp_def is_rapid_def[abs_def])

lemma diff_from_nones:
  "filter is_rapid (diff_from p (replicate n None)) = []"
  by (induction n arbitrary: p) (simp_all add: sub_ts_def is_rapid_simps)

lemma diff_from_somes:
  "length (filter is_rapid (diff_from (Some s) (map Some ts @ replicate n None)))
     = length (filter (\<lambda>d. d < 3600) (gaps (s # ts)))"
  by (induction ts arbitrary: s) (simp_all add: diff_from_nones sub_ts_def is_rapid_simps)

lemma diff_sorted_dates:
  "length (filter is_rapid (diff (map Some ts @ replicate n None)))
     = length (filter (\<lambda>d. d < 3600) (gaps ts))"
proof (cases ts)
  case Nil
  then show ?thesis by (cases n) (simp_all add: is_rapid_simps diff_from_nones)
next
  case (Cons s ss)
  then show ?thesis by (simp add: is_rapid_simps diff_from_somes)
qed

lemma rapid_flag_sum_spec:
  "rapid_flag_sum (sort_values df) a = spec_rapid_count df a"
  by (simp add: rapid_flag_sum_alt dates_group_sorted sort_key_date_key diff_sorted_dates
      spec_rapid_count_def account_timestamps_def)

lemma set_rapid_ids:
  "set (rapid_ids thr df) = {a \<in> account_id ` set df. thr \<le> int (spec_rapid_count df a)}"
  by (auto simp add: rapid_ids_def Let_def sort_values_def rapid_flag_sum_spec[unfolded sort_values_def])

section \<open>The detector blocks only set flags\<close>

lemma length_blocks:
  "length (high_value t df) = length df"
  "length (rapid t df) = length df"
  "length (outlier df) = length df"
  "length (weekend df) = length df"
  "length (risky ms df) = length df"
  by (simp_all add: high_value_def rapid_def outlier_def weekend_def risky_def loc_set_flagged_def
      high_value_mask_def rapid_mask_def outlier_mask_def weekend_mask_def risky_mask_def)

lemma length_masks:
  "length (high_value_mask t df) = length df"
  "length (rapid_mask t df) = length df"
  "length (outlier_mask df) = length df"
  "length (weekend_mask df) = length df"
  "length (risky_mask ms df) = length df"
  by (simp_all add: high_value_mask_def rapid_mask_def outlier_mask_def weekend_mask_def risky_mask_def)

lemma unflag_loc_set_flagged:
  "length msk = length df \<Longrightarrow> map unflag (loc_set_flagged msk df) = map unflag df"
  by (rule nth_equalityI) (simp_all add: loc_set_flagged_def unflag_def)

lemma flagged_loc_set_flagged:
  "length msk = length df \<Longrightarrow> i < length df \<Longrightarrow>
     flagged (loc_set_flagged msk df ! i) = (flagged (df ! i) \<or> msk ! i)"
  by (simp add: loc_set_flagged_def)

lemma unflag_blocks:
  "map unflag (high_value t df) = map unflag df"
  "map unflag (rapid t df) = map unflag df"
  "map unflag (outlier df) = map unflag df"
  "map unflag (weekend df) = map unflag df"
  "map unflag (risky ms df) = map unflag df"
  by (simp_all add: high_value_def rapid_def outlier_def weekend_def risky_def
      unflag_loc_set_flagged length_masks)

lemma group_rows_unflag: "group_rows (map unflag df) a = map unflag (group_rows df a)"
  by (simp add: group_rows_def filter_map comp_def unflag_def)

lemma isna_all_unflag: "isna_all (map unflag df) = isna_all df"
  by (simp add: isna_all_def list_all_iff unflag_def)

lemma spec_rapid_count_unflag: "spec_rapid_count (map unflag df) a = spec_rapid_count df a"
  by (simp add: spec_rapid_count_def account_timestamps_def group_rows_unflag comp_def unflag_def)

lemma unflag_fields:
  "amount (unflag r) = amount r"
  "account_id (unflag r) = account_id r"
  "merchant (unflag r) = merchant r"
  "date (unflag r) = date r"
  "flagged (unflag r) = False"
  by (simp_all add: unflag_def)

lemma acct_stats_unflag:
  "acct_mean (map unflag df) (unflag r) = acct_mean df r"
  "acct_std (map unflag df) (unflag r) = acct_std df r"
  by (simp_all add: acct_mean_def acct_std_def group_amounts_def group_rows_unflag comp_def unflag_def)

lemma high_value_mask_unflag: "high_value_mask t (map unflag df) = high_value_mask t df"
  by (simp add: high_value_mask_def unflag_def)

lemma rapid_mask_unflag: "rapid_mask t (map unflag df) = rapid_mask t df"
  by (simp add: rapid_mask_def set_rapid_ids spec_rapid_count_unflag image_image unflag_def)

lemma outlier_mask_unflag: "outlier_mask (map unflag df) = outlier_mask df"
  by (simp add: outlier_mask_def acct_stats_unflag unflag_fields comp_def cong: option.case_cong)

lemma weekend_mask_unflag: "weekend_mask (map unflag df) = weekend_mask df"
  by (simp add: weekend_mask_def unflag_def)

lemma risky_mask_unflag: "risky_mask ms (map unflag df) = risky_mask ms df"
  by (simp add: risky_mask_def unflag_def)

lemmas masks_unflag = high_value_mask_unflag rapid_mask_unflag outlier_mask_unflag
  weekend_mask_unflag risky_mask_unflag

lemma masks_cong:
  assumes "map unflag df' = map unflag df"
  shows "high_value_mask t df' = high_value_mask t df"
    and "rapid_mask t df' = rapid_mask t df"
    and "outlier_mask df' = outlier_mask df"
    and "weekend_mask df' = weekend_mask df"
    and "risky_mask ms df' = risky_mask ms df"
    and "isna_all df' = isna_all df"
proof -
  show "high_value_mask t df' = high_value_mask t df"
    using assms by (metis high_value_mask_unflag)
  show "rapid_mask t df' = rapid_mask t df"
    using assms by (metis rapid_mask_unflag)
  show "outlier_mask df' = outlier_mask df"
    using assms by (metis outlier_mask_unflag)
  show "weekend_mask df' = weekend_mask df"
    using assms by (metis weekend_mask_unflag)
  show "risky_mask ms df' = risky_mask ms df"
    using assms by (metis risky_mask_unflag)
  show "isna_all df' = isna_all df"
    using assms by (metis isna_all_unflag)
qed

lemma loc_set_flagged_map:
  "loc_set_flagged (map p df) df = map (\<lambda>r. if p r then r\<lparr>flagged := True\<rparr> else r) df"
  by (simp add: loc_set_flagged_def zip_map1 zip_same_conv_map)

section \<open>High-value detector\<close>

text \<open>
  Claim C5. The high-value block flags a row exactly when the threshold is positive and
  the row's amount is strictly above it: a row whose amount equals the threshold is not
  flagged, and nothing is flagged when the threshold is 0 or negative. The block changes
  no other column, and the flag of a row is the one the block gives to that row taken
  alone, so no other row has a part in it.
\<close>

theorem high_value_detector:
  "map flagged (high_value thr df)
     = map (\<lambda>r. flagged r \<or> (0 < thr \<and> real_of_int thr < amount r)) df
   \<and> map unflag (high_value thr df) = map unflag df
   \<and> (\<forall>i < length df. flagged (high_value thr (map unflag df) ! i)
          = flagged (high_value thr [unflag (df ! i)] ! 0))"
proof (intro conjI)
  show a: "map flagged (high_value thr df)
     = map (\<lambda>r. flagged r \<or> (0 < thr \<and> real_of_int thr < amount r)) df" for df
    by (simp add: high_value_def high_value_mask_def loc_set_flagged_map)
  show "map unflag (high_value thr df) = map unflag df"
    by (rule unflag_blocks)
  show "\<forall>i < length df. flagged (high_value thr (map unflag df) ! i)
          = flagged (high_value thr [unflag (df ! i)] ! 0)"
  proof (intro allI impI)
    fix i assume i: "i < length df"
    have "flagged (high_value thr (map unflag df) ! i)
            = map flagged (high_value thr (map unflag df)) ! i"
      using i by (simp add: length_blocks)
    also have "\<dots> = (0 < thr \<and> real_of_int thr < amount (df ! i))"
      using i by (simp add: a unflag_fields)
    also have "\<dots> = map flagged (high_value thr [unflag (df ! i)]) ! 0"
      by (simp add: a unflag_fields)
    also have "\<dots> = flagged (high_value thr [unflag (df ! i)] ! 0)"
      by (simp add: length_blocks)
    finally show "flagged (high_value thr (map unflag df) ! i)
          = flagged (high_value thr [unflag (df ! i)] ! 0)" .
  qed
qed

text \<open>
  The scenario of the specification (threshold 1000, amounts 500, 1500, 999), with a
  fourth row whose amount is exactly the threshold.
\<close>

theorem high_value_detector_witness:
  "map flagged (high_value 1000 (map unflag
      [\<lparr>amount = 500, account_id = ''A'', txn_type = ''debit'', merchant = ''m'',
         date = None, flagged = False\<rparr>,
       \<lparr>amount = 1500, account_id = ''A'', txn_type = ''debit'', merchant = ''m'',
         date = None, flagged = False\<rparr>,
       \<lparr>amount = 999, account_id = ''A'', txn_type = ''debit'', merchant = ''m'',
         date = None, flagged = False\<rparr>,
       \<lparr>amount = 1000, account_id = ''B'', txn_type = ''debit'', merchant = ''m'',
         date = None, flagged = False\<rparr>]))
    = [False, True, False, False]"
  using high_value_detector [of 1000 "map unflag
      [\<lparr>amount = 500, account_id = ''A'', txn_type = ''debit'', merchant = ''m'',
         date = None, flagged = False\<rparr>,
       \<lparr>amount = 1500, account_id = ''A'', txn_type = ''debit'', merchant = ''m'',
         date = None, flagged = False\<rparr>,
       \<lparr>amount = 999, account_id = ''A'', txn_type = ''debit'', merchant = ''m'',
         date = None, flagged = False\<rparr>,
       \<lparr>amount = 1000, account_id = ''B'', txn_type = ''debit'', merchant = ''m'',
         date = None, flagged = False\<rparr>]"]
  by (simp add: unflag_def)

section \<open>Date filter\<close>

text \<open>
  Claim C6. With both bounds given and at least one timestamp in the frame, the date
  filter keeps exactly the rows whose timestamp \<open>t\<close> satisfies
  \<open>to_datetime s \<le> t \<le> to_datetime e\<close>, both ends included, in their order; the
  bounds are the midnights that start the two chosen days. Without one of the bounds, or
  when no row has a timestamp, the frame is returned as it is. When the filter is applied
  with the start after the end, the result is the empty frame; the model has no error
  branch here, as the comparisons of the source raise nothing.
\<close>

theorem date_filter_contract:
  "(\<not> isna_all df \<longrightarrow>
      date_filter (Some s) (Some e) df
        = filter (\<lambda>r. \<exists>t. date r = Some t \<and> to_datetime s \<le> t \<and> t \<le> to_datetime e) df)
   \<and> (isna_all df \<longrightarrow> date_filter (Some s) (Some e) df = df)
   \<and> date_filter None ed df = df
   \<and> date_filter sd None df = df
   \<and> (\<not> isna_all df \<and> e < s \<longrightarrow> date_filter (Some s) (Some e) df = [])"
  by (auto simp add: date_filter_def ge_ts_def le_ts_def to_datetime_def
      split: option.splits intro!: filter_cong)

theorem date_filter_contract_witness:
  "\<not> isna_all ex_dates
   \<and> date_filter (Some 19723) (Some 19724) ex_dates = take 2 ex_dates
   \<and> (19723::int) < 19724
   \<and> date_filter (Some 19724) (Some 19723) ex_dates = []"
proof -
  have n: "\<not> isna_all ex_dates" by (simp add: ex_dates_def isna_all_def)
  have "date_filter (Some 19723) (Some 19724) ex_dates
          = filter (\<lambda>r. \<exists>t. date r = Some t \<and> to_datetime 19723 \<le> t \<and> t \<le> to_datetime 19724)
              ex_dates"
    using date_filter_contract [of ex_dates 19723 19724, THEN conjunct1] n by (rule mp)
  then have a: "date_filter (Some 19723) (Some 19724) ex_dates = take 2 ex_dates"
    by (simp add: ex_dates_def to_datetime_def)
  have "\<not> isna_all ex_dates \<and> (19723::int) < 19724
          \<longrightarrow> date_filter (Some 19724) (Some 19723) ex_dates = []"
    using date_filter_contract [of ex_dates 19724 19723] by blast
  then have b: "date_filter (Some 19724) (Some 19723) ex_dates = []"
    using n by simp
  show ?thesis using n a b by simp
qed

text \<open>
  Claim C10. When the date filter is applied (both bounds given, at least one timestamp
  in the frame), no row of its result lacks a timestamp, and the result is the one
  obtained from the frame without its rows that lack a timestamp. So the whole analysis,
  metrics and flags, is the analysis of the frame without those rows.
\<close>

theorem date_filter_drops_null:
  "\<not> isna_all df \<longrightarrow>
     (\<forall>r \<in> set (date_filter (Some s) (Some e) df). date r \<noteq> None)
     \<and> date_filter (Some s) (Some e) df
         = date_filter (Some s) (Some e) (filter (\<lambda>r. date r \<noteq> None) df)
     \<and> (start_date cfg = Some s \<and> end_date cfg = Some e \<longrightarrow>
          analysis cfg df = analysis cfg (filter (\<lambda>r. date r \<noteq> None) df))"
proof
  assume n: "\<not> isna_all df"
  let ?nn = "filter (\<lambda>r. date r \<noteq> None) df"
  have n': "\<not> isna_all ?nn" using n by (auto simp: isna_all_def list_all_iff)
  have a: "\<forall>r \<in> set (date_filter (Some s) (Some e) df). date r \<noteq> None"
    using n by (auto simp: date_filter_def ge_ts_def split: option.splits)
  have b: "date_filter (Some s) (Some e) df = date_filter (Some s) (Some e) ?nn"
    using n n' by (auto simp: date_filter_def ge_ts_def split: option.splits intro!: filter_cong)
  have c: "analysis cfg df = analysis cfg ?nn" if "start_date cfg = Some s" "end_date cfg = Some e"
    using that b by (simp add: analysis_def)
  show "(\<forall>r \<in> set (date_filter (Some s) (Some e) df). date r \<noteq> None)
     \<and> date_filter (Some s) (Some e) df = date_filter (Some s) (Some e) ?nn
     \<and> (start_date cfg = Some s \<and> end_date cfg = Some e \<longrightarrow> analysis cfg df = analysis cfg ?nn)"
    using a b c by blast
qed

theorem date_filter_drops_null_witness:
  "\<not> isna_all ex_dates
   \<and> date_filter (Some 19723) (Some 19800) ex_dates = take 3 ex_dates"
proof -
  have n: "\<not> isna_all ex_dates" by (simp add: ex_dates_def isna_all_def)
  have f: "filter (\<lambda>r. date r \<noteq> None) ex_dates = take 3 ex_dates" by (simp add: ex_dates_def)
  have "date_filter (Some 19723) (Some 19800) ex_dates
          = date_filter (Some 19723) (Some 19800) (filter (\<lambda>r. date r \<noteq> None) ex_dates)"
    using date_filter_drops_null [of ex_dates 19723 19800] n by blast
  also have "\<dots> = date_filter (Some 19723) (Some 19800) (take 3 ex_dates)"
    by (simp only: f)
  also have "\<dots> = take 3 ex_dates"
    by (simp add: ex_dates_def date_filter_def isna_all_def ge_ts_def le_ts_def to_datetime_def)
  finally show ?thesis using n by simp
qed

section \<open>Summary metrics on an empty frame\<close>

text \<open>
  Claim C2. On an empty filtered frame the mean, the maximum and the minimum are NaN and
  nothing raises so far, but the flagged percentage of line 129 divides by the row count:
  the analysis ends in \<open>ZeroDivisionError\<close>. Here the frame \<open>ex_dates\<close> is
  filtered to the days 2025-01-01 to 2025-12-31, which hold none of its rows.
\<close>

theorem empty_filtered_frame_raises:
  "date_filter (Some 20089) (Some 20453) ex_dates = []
   \<and> mean (map amount (date_filter (Some 20089) (Some 20453) ex_dates)) = None
   \<and> series_max (map amount (date_filter (Some 20089) (Some 20453) ex_dates)) = None
   \<and> series_min (map amount (date_filter (Some 20089) (Some 20453) ex_dates)) = None
   \<and> analysis \<lparr>start_date = Some 20089, end_date = Some 20453, user_threshold = 0,
        rapid_txn_threshold = 0, risky_merchants = []\<rparr> ex_dates = Inl ZeroDivisionError
   \<and> analysis \<lparr>start_date = None, end_date = None, user_threshold = 0,
        rapid_txn_threshold = 0, risky_merchants = []\<rparr> [] = Inl ZeroDivisionError"
proof -
  have e: "date_filter (Some 20089) (Some 20453) ex_dates = []"
    by (simp add: ex_dates_def date_filter_def isna_all_def ge_ts_def le_ts_def to_datetime_def)
  have "analysis \<lparr>start_date = Some 20089, end_date = Some 20453, user_threshold = 0,
        rapid_txn_threshold = 0, risky_merchants = []\<rparr> ex_dates = Inl ZeroDivisionError"
    by (simp add: analysis_def e)
  moreover have "analysis \<lparr>start_date = None, end_date = None, user_threshold = 0,
        rapid_txn_threshold = 0, risky_merchants = []\<rparr> [] = Inl ZeroDivisionError"
    by (simp add: analysis_def date_filter_def)
  ultimately show ?thesis
    by (simp add: e mean_def series_max_def series_min_def)
qed

section \<open>Facts shared by the claims below\<close>

lemma weekday_range: "0 \<le> weekday t \<and> weekday t < 7"
  by (simp add: weekday_def)

lemma flagged_blocks:
  assumes "i < length df"
  shows "flagged (high_value t df ! i) = (flagged (df ! i) \<or> (0 < t \<and> high_value_mask t df ! i))"
    and "flagged (rapid t df ! i)
           = (flagged (df ! i) \<or> (0 < t \<and> \<not> isna_all df \<and> rapid_mask t df ! i))"
    and "flagged (outlier df ! i) = (flagged (df ! i) \<or> outlier_mask df ! i)"
    and "flagged (weekend df ! i) = (flagged (df ! i) \<or> (\<not> isna_all df \<and> weekend_mask df ! i))"
    and "flagged (risky ms df ! i) = (flagged (df ! i) \<or> (ms \<noteq> [] \<and> risky_mask ms df ! i))"
  using assms
  by (auto simp add: high_value_def rapid_def outlier_def weekend_def risky_def
      flagged_loc_set_flagged length_masks)

lemma unflag_unflag: "unflag (unflag r) = unflag r"
  by (simp add: unflag_def)

lemma unflag_idem: "map unflag (map unflag df) = map unflag df"
  by (simp add: unflag_unflag)

lemma flagged_fraud_detection:
  assumes i: "i < length df"
  shows "flagged (fraud_detection cfg df ! i)
     = ((0 < user_threshold cfg \<and> high_value_mask (user_threshold cfg) df ! i)
        \<or> (0 < rapid_txn_threshold cfg \<and> \<not> isna_all df
              \<and> rapid_mask (rapid_txn_threshold cfg) df ! i)
        \<or> outlier_mask df ! i
        \<or> (\<not> isna_all df \<and> weekend_mask df ! i)
        \<or> (risky_merchants cfg \<noteq> [] \<and> risky_mask (risky_merchants cfg) df ! i))"
proof -
  define d0 where "d0 = map unflag df"
  define d1 where "d1 = high_value (user_threshold cfg) d0"
  define d2 where "d2 = rapid (rapid_txn_threshold cfg) d1"
  define d3 where "d3 = outlier d2"
  define d4 where "d4 = weekend d3"
  have u0: "map unflag d0 = map unflag df" by (simp add: d0_def unflag_unflag)
  have u1: "map unflag d1 = map unflag df" by (simp add: d1_def unflag_blocks u0)
  have u2: "map unflag d2 = map unflag df" by (simp add: d2_def unflag_blocks u1)
  have u3: "map unflag d3 = map unflag df" by (simp add: d3_def unflag_blocks u2)
  have u4: "map unflag d4 = map unflag df" by (simp add: d4_def unflag_blocks u3)
  have l0: "i < length d0" using i by (simp add: d0_def)
  have l1: "i < length d1" using l0 by (simp add: d1_def length_blocks)
  have l2: "i < length d2" using l1 by (simp add: d2_def length_blocks)
  have l3: "i < length d3" using l2 by (simp add: d3_def length_blocks)
  have l4: "i < length d4" using l3 by (simp add: d4_def length_blocks)
  have f0: "flagged (d0 ! i) = False" using i by (simp add: d0_def unflag_fields)
  have f1: "flagged (d1 ! i)
      = (flagged (d0 ! i) \<or> (0 < user_threshold cfg \<and> high_value_mask (user_threshold cfg) df ! i))"
    unfolding d1_def using flagged_blocks(1) [OF l0] masks_cong(1) [OF u0] by simp
  have f2: "flagged (d2 ! i)
      = (flagged (d1 ! i) \<or> (0 < rapid_txn_threshold cfg \<and> \<not> isna_all df
              \<and> rapid_mask (rapid_txn_threshold cfg) df ! i))"
    unfolding d2_def using flagged_blocks(2) [OF l1] masks_cong(2) [OF u1] masks_cong(6) [OF u1]
    by simp
  have f3: "flagged (d3 ! i) = (flagged (d2 ! i) \<or> outlier_mask df ! i)"
    unfolding d3_def using flagged_blocks(3) [OF l2] masks_cong(3) [OF u2] by simp
  have f4: "flagged (d4 ! i) = (flagged (d3 ! i) \<or> (\<not> isna_all df \<and> weekend_mask df ! i))"
    unfolding d4_def using flagged_blocks(4) [OF l3] masks_cong(4) [OF u3] masks_cong(6) [OF u3]
    by simp
  have f5: "flagged (risky (risky_merchants cfg) d4 ! i)
      = (flagged (d4 ! i) \<or> (risky_merchants cfg \<noteq> [] \<and> risky_mask (risky_merchants cfg) df ! i))"
    using flagged_blocks(5) [OF l4] masks_cong(5) [OF u4] by simp
  have "fraud_detection cfg df = risky (risky_merchants cfg) d4"
    by (simp add: fraud_detection_def d0_def d1_def d2_def d3_def d4_def)
  then show ?thesis using f0 f1 f2 f3 f4 f5 by simp
qed

lemma length_fraud_detection: "length (fraud_detection cfg df) = length df"
  by (simp add: fraud_detection_def length_blocks)

lemma unflag_fraud_detection: "map unflag (fraud_detection cfg df) = map unflag df"
  by (simp add: fraud_detection_def unflag_blocks unflag_unflag)

lemma sqrt_9: "sqrt 9 = 3"
  by (rule real_sqrt_unique) simp_all

lemma ex_outlier_groups:
  "group_amounts ex_outlier ''A'' = [0, 0, 0, 0, 0, 0, 0, 0, 9]"
  "group_amounts ex_outlier ''B'' = [5000]"
  "group_amounts ex_outlier ''C'' = [7, 7]"
  by (simp_all add: ex_outlier_def group_amounts_def group_rows_def numeral_eq_Suc)

lemma ex_outlier_rows:
  "map (\<lambda>r. (account_id r, amount r)) ex_outlier
     = [(''A'', 0), (''A'', 0), (''A'', 0), (''A'', 0), (''A'', 0), (''A'', 0), (''A'', 0), (''A'', 0),
        (''A'', 9), (''B'', 5000), (''C'', 7), (''C'', 7)]"
  by (simp add: ex_outlier_def numeral_eq_Suc)

lemma ex_outlier_stats:
  "mean [0, 0, 0, 0, 0, 0, 0, 0, 9] = Some 1"
  "std [0, 0, 0, 0, 0, 0, 0, 0, 9] = Some 3"
  "mean [5000] = Some 5000"
  "std [5000] = None"
  "mean [7, 7] = Some 7"
  "std [7, 7] = Some 0"
  by (simp_all add: mean_def std_def sqrt_9)

lemma outlier_mask_alt:
  "outlier_mask df
     = map (\<lambda>(a, x). case mean (group_amounts df a) of None \<Rightarrow> False
                       | Some m \<Rightarrow> x > m + 2 * fillna 0 (std (group_amounts df a)))
         (map (\<lambda>r. (account_id r, amount r)) df)"
  by (simp add: outlier_mask_def acct_mean_def acct_std_def comp_def cong: option.case_cong)

lemma outlier_mask_ex_outlier:
  "outlier_mask ex_outlier
     = [False, False, False, False, False, False, False, False, True, False, False, False]"
  unfolding outlier_mask_alt ex_outlier_rows
  by (simp add: ex_outlier_groups ex_outlier_stats fillna_def)

lemma isna_all_ex_outlier: "isna_all ex_outlier"
  by (simp add: ex_outlier_def isna_all_def list_all_iff)

lemma flagged_all_disabled:
  assumes "user_threshold cfg = 0" "rapid_txn_threshold cfg = 0" "risky_merchants cfg = []"
    "isna_all df"
  shows "map flagged (fraud_detection cfg df) = outlier_mask df"
proof (rule nth_equalityI)
  show "length (map flagged (fraud_detection cfg df)) = length (outlier_mask df)"
    by (simp add: length_fraud_detection length_masks)
next
  fix i assume "i < length (map flagged (fraud_detection cfg df))"
  then have i: "i < length df" by (simp add: length_fraud_detection)
  then show "map flagged (fraud_detection cfg df) ! i = outlier_mask df ! i"
    using assms by (simp add: length_fraud_detection flagged_fraud_detection)
qed










section \<open>Weekend detector\<close>

text \<open>
  Claim C8. When at least one row has a timestamp, the weekend block flags exactly the
  rows whose timestamp has weekday 5 or 6 (Saturday or Sunday, Monday being 0), rows
  without a timestamp not being among them; when no row has a timestamp the frame is left
  as it is. The weekday is at least 5 exactly on the days congruent modulo 7 to
  1970-01-03 and 1970-01-04, a Saturday and a Sunday.
\<close>

theorem weekend_detector:
  "(\<not> isna_all df \<longrightarrow>
      map flagged (weekend df)
        = map (\<lambda>r. flagged r \<or> (\<exists>t. date r = Some t \<and> (weekday t = 5 \<or> weekday t = 6))) df)
   \<and> (isna_all df \<longrightarrow> weekend df = df)
   \<and> map unflag (weekend df) = map unflag df
   \<and> (weekday t \<ge> 5) = ((t div 86400000000000) mod 7 = 2 \<or> (t div 86400000000000) mod 7 = 3)"
proof (intro conjI impI)
  have w: "(weekday t \<ge> 5) = (weekday t = 5 \<or> weekday t = 6)" for t
    using weekday_range [of t] by arith
  assume "\<not> isna_all df"
  then show "map flagged (weekend df)
        = map (\<lambda>r. flagged r \<or> (\<exists>t. date r = Some t \<and> (weekday t = 5 \<or> weekday t = 6))) df"
    by (auto simp add: weekend_def weekend_mask_def loc_set_flagged_map w split: option.splits)
next
  assume "isna_all df"
  then show "weekend df = df" by (simp add: weekend_def)
next
  show "map unflag (weekend df) = map unflag df" by (rule unflag_blocks)
next
  show "(weekday t \<ge> 5) = ((t div 86400000000000) mod 7 = 2 \<or> (t div 86400000000000) mod 7 = 3)"
  proof -
    have "((d + 3) mod 7 \<ge> 5) = (d mod 7 = 2 \<or> d mod 7 = 3)" for d :: int
      by presburger
    then show ?thesis unfolding weekday_def .
  qed
qed

theorem weekend_detector_witness:
  "\<not> isna_all ex_week
   \<and> map flagged (weekend ex_week) = [True, True, False, False, False]
   \<and> isna_all ex_outlier
   \<and> weekend ex_outlier = ex_outlier"
proof -
  have n: "\<not> isna_all ex_week" by (simp add: ex_week_def isna_all_def)
  have "\<not> isna_all ex_week \<longrightarrow>
      map flagged (weekend ex_week)
        = map (\<lambda>r. flagged r \<or> (\<exists>t. date r = Some t \<and> (weekday t = 5 \<or> weekday t = 6))) ex_week"
    using weekend_detector [of ex_week] by blast
  then have "map flagged (weekend ex_week)
        = map (\<lambda>r. flagged r \<or> (\<exists>t. date r = Some t \<and> (weekday t = 5 \<or> weekday t = 6))) ex_week"
    using n by simp
  also have "\<dots> = [True, True, False, False, False]"
    by (simp add: ex_week_def weekday_def)
  finally have a: "map flagged (weekend ex_week) = [True, True, False, False, False]" .
  have "isna_all ex_outlier \<longrightarrow> weekend ex_outlier = ex_outlier"
    using weekend_detector [of ex_outlier] by blast
  then have b: "weekend ex_outlier = ex_outlier" using isna_all_ex_outlier by simp
  show ?thesis using n a b isna_all_ex_outlier by simp
qed

section \<open>Statistical outlier detector\<close>



section \<open>All thresholds disabled\<close>

text \<open>
  Claim C3 says that with both thresholds 0, no risky merchant and no timestamp, no row
  is flagged. The outlier block has no switch: in \<open>ex_outlier\<close> the row of amount 9
  of account A is flagged under exactly that configuration.
\<close>

theorem all_disabled_counterexample:
  "user_threshold \<lparr>start_date = None, end_date = None, user_threshold = 0,
       rapid_txn_threshold = 0, risky_merchants = []\<rparr> = 0
   \<and> rapid_txn_threshold \<lparr>start_date = None, end_date = None, user_threshold = 0,
       rapid_txn_threshold = 0, risky_merchants = []\<rparr> = 0
   \<and> risky_merchants \<lparr>start_date = None, end_date = None, user_threshold = 0,
       rapid_txn_threshold = 0, risky_merchants = []\<rparr> = []
   \<and> isna_all ex_outlier
   \<and> map flagged (fraud_detection \<lparr>start_date = None, end_date = None, user_threshold = 0,
       rapid_txn_threshold = 0, risky_merchants = []\<rparr> ex_outlier)
      = [False, False, False, False, False, False, False, False, True, False, False, False]"
  by (simp add: flagged_all_disabled isna_all_ex_outlier outlier_mask_ex_outlier)

text \<open>
  Claim C3, amended. With both thresholds 0, no risky merchant and no timestamp, the
  high-value, rapid, weekend and risky-merchant blocks flag nothing, and the rows flagged
  are exactly those of the outlier mask.
\<close>

theorem all_disabled_flags_outliers_only:
  "user_threshold cfg = 0 \<and> rapid_txn_threshold cfg = 0 \<and> risky_merchants cfg = []
     \<and> isna_all df
   \<longrightarrow> map flagged (fraud_detection cfg df) = outlier_mask df
       \<and> map flagged (rapid (rapid_txn_threshold cfg) (high_value (user_threshold cfg) (map unflag df)))
           = map (\<lambda>r. False) df
       \<and> weekend df = df \<and> risky (risky_merchants cfg) df = df"
  by (simp add: flagged_all_disabled high_value_def rapid_def weekend_def risky_def unflag_fields comp_def)

theorem all_disabled_flags_outliers_only_witness:
  "isna_all ex_outlier
   \<and> map flagged (fraud_detection \<lparr>start_date = None, end_date = None, user_threshold = 0,
         rapid_txn_threshold = 0, risky_merchants = []\<rparr> ex_outlier) = outlier_mask ex_outlier
   \<and> weekend ex_outlier = ex_outlier"
  using all_disabled_flags_outliers_only
    [of "\<lparr>start_date = None, end_date = None, user_threshold = 0,
         rapid_txn_threshold = 0, risky_merchants = []\<rparr>" ex_outlier]
    isna_all_ex_outlier
  by simp

section \<open>Aggregation\<close>

text \<open>
  Claim C7. The final flag of a row is the disjunction of the masks of the blocks that
  run (each mask taken on the frame the detection starts from); no block clears a flag
  that is set; and a row flagged under a configuration is flagged under the same
  configuration with a larger list of risky merchants.
\<close>

theorem aggregation_monotone_or:
  assumes "i < length df"
  shows "flagged (fraud_detection cfg df ! i)
           = ((0 < user_threshold cfg \<and> high_value_mask (user_threshold cfg) df ! i)
              \<or> (0 < rapid_txn_threshold cfg \<and> \<not> isna_all df
                    \<and> rapid_mask (rapid_txn_threshold cfg) df ! i)
              \<or> outlier_mask df ! i
              \<or> (\<not> isna_all df \<and> weekend_mask df ! i)
              \<or> (risky_merchants cfg \<noteq> [] \<and> risky_mask (risky_merchants cfg) df ! i))
         \<and> (flagged (df ! i) \<longrightarrow>
               flagged (high_value t df ! i) \<and> flagged (rapid t df ! i) \<and> flagged (outlier df ! i)
               \<and> flagged (weekend df ! i) \<and> flagged (risky ms df ! i))
         \<and> (set (risky_merchants cfg) \<subseteq> set ms' \<and> flagged (fraud_detection cfg df ! i)
               \<longrightarrow> flagged (fraud_detection (cfg\<lparr>risky_merchants := ms'\<rparr>) df ! i))"
proof (intro conjI impI)
  show "flagged (fraud_detection cfg df ! i)
           = ((0 < user_threshold cfg \<and> high_value_mask (user_threshold cfg) df ! i)
              \<or> (0 < rapid_txn_threshold cfg \<and> \<not> isna_all df
                    \<and> rapid_mask (rapid_txn_threshold cfg) df ! i)
              \<or> outlier_mask df ! i
              \<or> (\<not> isna_all df \<and> weekend_mask df ! i)
              \<or> (risky_merchants cfg \<noteq> [] \<and> risky_mask (risky_merchants cfg) df ! i))"
    by (rule flagged_fraud_detection [OF assms])
next
  assume f: "flagged (df ! i)"
  show "flagged (high_value t df ! i)" using f by (simp add: flagged_blocks(1) [OF assms])
  show "flagged (rapid t df ! i)" using f by (simp add: flagged_blocks(2) [OF assms])
  show "flagged (outlier df ! i)" using f by (simp add: flagged_blocks(3) [OF assms])
  show "flagged (weekend df ! i)" using f by (simp add: flagged_blocks(4) [OF assms])
  show "flagged (risky ms df ! i)" using f by (simp add: flagged_blocks(5) [OF assms])
next
  assume a: "set (risky_merchants cfg) \<subseteq> set ms' \<and> flagged (fraud_detection cfg df ! i)"
  have r: "risky_merchants cfg \<noteq> [] \<and> risky_mask (risky_merchants cfg) df ! i
             \<Longrightarrow> ms' \<noteq> [] \<and> risky_mask ms' df ! i"
    using a assms by (auto simp add: risky_mask_def)
  show "flagged (fraud_detection (cfg\<lparr>risky_merchants := ms'\<rparr>) df ! i)"
    using a r by (auto simp add: flagged_fraud_detection [OF assms])
qed

theorem aggregation_monotone_or_witness:
  "(2::nat) < length ex_week
   \<and> set [''casino''] \<subseteq> set [''casino'', ''grocer'']
   \<and> flagged (fraud_detection \<lparr>start_date = None, end_date = None, user_threshold = 50,
         rapid_txn_threshold = 0, risky_merchants = [''casino'']\<rparr> ex_week ! 2)
   \<and> flagged (fraud_detection \<lparr>start_date = None, end_date = None, user_threshold = 50,
         rapid_txn_threshold = 0, risky_merchants = [''casino'', ''grocer'']\<rparr> ex_week ! 2)"
proof -
  let ?c = "\<lparr>start_date = None, end_date = None, user_threshold = 50,
         rapid_txn_threshold = 0, risky_merchants = [''casino'']\<rparr>"
  have l: "2 < length ex_week" by (simp add: ex_week_def)
  have s: "set (risky_merchants ?c) \<subseteq> set [''casino'', ''grocer'']" by simp
  have h: "0 < user_threshold ?c \<and> high_value_mask (user_threshold ?c) ex_week ! 2"
    by (simp add: high_value_mask_def ex_week_def)
  have f: "flagged (fraud_detection ?c ex_week ! 2)"
    using aggregation_monotone_or [OF l, of ?c] h by blast
  have "set (risky_merchants ?c) \<subseteq> set [''casino'', ''grocer'']
          \<and> flagged (fraud_detection ?c ex_week ! 2)
        \<longrightarrow> flagged (fraud_detection (?c\<lparr>risky_merchants := [''casino'', ''grocer'']\<rparr>) ex_week ! 2)"
    using aggregation_monotone_or [OF l, of ?c _ _ "[''casino'', ''grocer'']"] by blast
  then have "flagged (fraud_detection (?c\<lparr>risky_merchants := [''casino'', ''grocer'']\<rparr>) ex_week ! 2)"
    using s f by blast
  then show ?thesis using l f by simp
qed

section \<open>Facts about the rapid-succession block\<close>



lemma rapid_mask_nth:
  "i < length df \<Longrightarrow>
     rapid_mask thr df ! i = (thr \<le> int (spec_rapid_count df (account_id (df ! i))))"
  by (auto simp add: rapid_mask_def set_rapid_ids)



lemma somes_drop_null:
  "somes (map date (filter (\<lambda>r. date r \<noteq> None) rows)) = somes (map date rows)"
  by (induction rows) (auto simp add: somes_def)

lemma spec_rapid_count_drop_null:
  "spec_rapid_count (filter (\<lambda>r. date r \<noteq> None) df) a = spec_rapid_count df a"
proof -
  have "group_rows (filter (\<lambda>r. date r \<noteq> None) df) a
          = filter (\<lambda>r. date r \<noteq> None) (group_rows df a)"
    by (auto simp add: group_rows_def intro: filter_cong)
  then show ?thesis
    by (simp only: spec_rapid_count_def account_timestamps_def somes_drop_null)
qed

lemma length_diff_from: "length (diff_from p xs) = length xs"
  by (induction xs arbitrary: p) simp_all

lemma length_diff: "length (diff xs) = length xs"
  by (cases xs) (simp_all add: length_diff_from)

lemma diff_from_nth_None:
  "j < length xs \<Longrightarrow> xs ! j = None \<Longrightarrow> diff_from p xs ! j = None"
proof (induction xs arbitrary: p j)
  case Nil
  then show ?case by simp
next
  case (Cons x xs)
  then show ?case by (cases j) (simp_all add: sub_ts_def)
qed

lemma diff_nth_None: "j < length xs \<Longrightarrow> xs ! j = None \<Longrightarrow> diff xs ! j = None"
  by (cases xs; cases j) (simp_all add: diff_from_nth_None)

lemma time_diff_nth_None:
  assumes "j < length (group_rows df_sorted a)" "date (group_rows df_sorted a ! j) = None"
  shows "time_diff df_sorted a ! j = PosInf"
proof -
  have "diff (map date (group_rows df_sorted a)) ! j = None"
    using assms by (simp add: diff_nth_None)
  then show ?thesis
    using assms(1) by (simp add: time_diff_def length_diff total_seconds_def fillna_inf_def)
qed

lemma date_unflag_eq:
  assumes "map unflag xs = map unflag ys" "i < length ys"
  shows "date (xs ! i) = date (ys ! i)"
proof -
  have l: "length xs = length ys" using assms(1) by (metis length_map)
  have "unflag (xs ! i) = unflag (ys ! i)"
    using assms l by (metis nth_map)
  then show ?thesis by (metis unflag_fields(4))
qed

lemma isna_all_ex_ties: "\<not> isna_all ex_ties"
  by (simp add: ex_ties_def isna_all_def)


lemma ex_ties_sum: "rapid_flag_sum (sort_values ex_ties) ''A'' = 1"
  by (simp add: rapid_flag_sum_def rapid_flag_def
    sort_values_def ex_ties_def date_key_def less_eq_prod_def time_diff_def group_rows_def
     sub_ts_def total_seconds_def fillna_inf_def)

section \<open>Rapid-succession detector\<close>



text \<open>
  Claim C9. When the rapid block runs and the count of a row's account reaches the
  threshold, the row is flagged whatever its timestamp, a missing timestamp included
  (the block leaves the timestamp column as it is). The rows without a timestamp add
  nothing to any count: the count of an account is the same on the frame without those
  rows, and in the sorted frame the difference computed for such a row is infinite.
\<close>

theorem rapid_escalation_null_timestamps:
  assumes "i < length df" "0 < thr" "\<not> isna_all df"
    and "thr \<le> int (rapid_flag_sum (sort_values df) (account_id (df ! i)))"
  shows "flagged (rapid thr df ! i)
     \<and> date (rapid thr df ! i) = date (df ! i)
     \<and> rapid_flag_sum (sort_values (filter (\<lambda>r. date r \<noteq> None) df)) a
         = rapid_flag_sum (sort_values df) a
     \<and> (\<forall>j < length (group_rows (sort_values df) a).
           date (group_rows (sort_values df) a ! j) = None
             \<longrightarrow> time_diff (sort_values df) a ! j = PosInf)"
proof (intro conjI)
  show "flagged (rapid thr df ! i)"
    using assms by (simp add: flagged_blocks(2) rapid_mask_nth rapid_flag_sum_spec)
  show "date (rapid thr df ! i) = date (df ! i)"
    using unflag_blocks(2) assms(1) by (rule date_unflag_eq)
  show "rapid_flag_sum (sort_values (filter (\<lambda>r. date r \<noteq> None) df)) a
         = rapid_flag_sum (sort_values df) a"
    by (simp only: rapid_flag_sum_spec spec_rapid_count_drop_null)
  show "\<forall>j < length (group_rows (sort_values df) a).
           date (group_rows (sort_values df) a ! j) = None
             \<longrightarrow> time_diff (sort_values df) a ! j = PosInf"
    by (simp add: time_diff_nth_None)
qed

theorem rapid_escalation_null_timestamps_witness:
  "(1::nat) < length ex_ties \<and> (0::int) < 1 \<and> \<not> isna_all ex_ties
   \<and> 1 \<le> int (rapid_flag_sum (sort_values ex_ties) (account_id (ex_ties ! 1)))
   \<and> date (ex_ties ! 1) = None
   \<and> flagged (rapid 1 ex_ties ! 1)
   \<and> date (rapid 1 ex_ties ! 1) = None"
proof -
  have l: "1 < length ex_ties" by (simp add: ex_ties_def)
  have a: "account_id (ex_ties ! 1) = ''A''" and d: "date (ex_ties ! 1) = None"
    by (simp_all add: ex_ties_def)
  have c: "1 \<le> int (rapid_flag_sum (sort_values ex_ties) (account_id (ex_ties ! 1)))"
    unfolding a ex_ties_sum by simp
  have "flagged (rapid 1 ex_ties ! 1) \<and> date (rapid 1 ex_ties ! 1) = date (ex_ties ! 1)"
    using rapid_escalation_null_timestamps [OF l _ isna_all_ex_ties c] by simp
  then show ?thesis using l isna_all_ex_ties c d by simp
qed

end
